theory Spec2Isabelle
  imports Complex_Main "HOL-Library.Multiset"
begin

section \<open>Data model\<close>

text \<open>
  The checkers of \<^verbatim>\<open>hard_constraints.py\<close> and \<^verbatim>\<open>soft_constraints.py\<close> work on
  dictionaries. A dictionary whose keys are fixed by the code that writes and reads it
  is a record here, one field for each key; a key that may be absent, or whose value may
  be \<^verbatim>\<open>None\<close>, is an \<open>option\<close> (\<^verbatim>\<open>d.get(k)\<close> is \<open>None\<close> in both cases).
  Identifiers are Python integers. Display-only entries (time strings, the free-text
  \<^verbatim>\<open>details\<close>) and the floating-point \<^verbatim>\<open>penalty\<close> are not carried.
\<close>

record meeting =
  subject_id :: "int option"
  subject_name :: string
  faculty_id :: "int option"
  faculty_name :: "string option"
  all_faculty_ids :: "int list option"
  all_faculty_names :: "string list option"
  room_id :: "int option"
  room_name :: "string option"
  room_capacity :: "int option"
  all_room_ids :: "int list option"
  batch_id :: "int option"
  all_batch_ids :: "int list option"
  day :: string
  start_minutes :: int
  end_minutes :: int

record faculty_data =
  fd_faculty_name :: "string option"
  fd_min_load :: "rat option"
  fd_max_load :: "rat option"
  fd_max_subjects :: "int option"
  fd_preferred_subjects :: "int list option"
  fd_qualified_subjects :: "int list option"
  fd_max_hours_per_week :: "int option"
  fd_min_hours_per_week :: "int option"

record subject_data =
  sd_subject_name :: "string option"
  sd_linked_subject_id :: "int option"

record room_data =
  rd_room_name :: "string option"
  rd_capacity :: "int option"
  rd_optimal_capacity :: "int option"
  rd_min_capacity :: "int option"

record batch_data =
  bd_batch_name :: "string option"
  bd_population :: "int option"

record banned_time =
  bt_faculty_name :: string
  bt_day :: string
  bt_start_minutes :: int
  bt_end_minutes :: int

record external_meeting =
  em_faculty_name :: string
  em_day :: string
  em_start_minutes :: int
  em_end_minutes :: int

text \<open>
  \<^verbatim>\<open>ReferenceData\<close>: the by-id dictionaries are association lists in insertion order
  (a key occurs once), read with \<open>map_of\<close>. The class never sets an attribute
  \<^verbatim>\<open>external_meetings\<close>; \<open>None\<close> stands for the absent attribute
  (\<^verbatim>\<open>hasattr\<close> is false).
\<close>

record reference_data =
  faculty_by_id :: "(int \<times> faculty_data) list"
  subjects_by_id :: "(int \<times> subject_data) list"
  rooms_by_id :: "(int \<times> room_data) list"
  batches_by_id :: "(int \<times> batch_data) list"
  banned_times :: "banned_time list"
  external_meetings :: "external_meeting list option"

text \<open>The thresholds of \<^verbatim>\<open>Config\<close> that the checkers read (config\_loader.py, 83-103).\<close>

record config =
  MAX_CONTINUOUS_CLASS_MINUTES :: int
  MIN_CONTINUOUS_CLASS_MINUTES :: int
  MIN_GAP_MINUTES :: int
  EXCESS_GAP_MINUTES :: int
  FRIDAY_LATE_MINUTES :: int
  MAX_SUBJECTS_PER_FACULTY :: int

text \<open>
  The penalty weights that \<^verbatim>\<open>Config._initialize\<close> defines (config\_loader.py, 106-117).
  Reading any other attribute of the configuration object raises \<^verbatim>\<open>AttributeError\<close>.
\<close>

datatype error = AttributeError

definition config_penalty_attributes :: "string list" where
  "config_penalty_attributes =
     [''FACULTY_OVERLOAD_PER_LOAD'', ''FACULTY_UNDERFILL_PER_LOAD'',
      ''SECTION_OVERFILL_PER_STUDENT'', ''SECTION_UNDERFILL_PER_STUDENT'',
      ''MIN_CONTINUOUS_PENALTY_PER_MINUTE'', ''EXCESS_GAP_PENALTY_PER_MINUTE'',
      ''NON_PREFERRED_SUBJECT_PENALTY'', ''FRIDAY_LATE_PENALTY_PER_MINUTE'',
      ''EXCESS_SUBJECTS_PENALTY_PER_SUBJECT'',
      ''EXTERNAL_MEETING_CONFLICT_PENALTY_PER_MINUTE'']"

definition config_getattr :: "string \<Rightarrow> error + unit" where
  "config_getattr name =
     (if name \<in> set config_penalty_attributes then Inr () else Inl AttributeError)"

record violation =
  vtype :: string
  entity_type :: string
  entity_name :: string
  vday :: "string option"
  magnitude :: int

record Section =
  section_subject_id :: int
  section_subject_name :: string
  section_index :: nat
  section_id :: string
  section_faculty_id :: "int option"
  section_faculty_name :: "string option"
  batch_ids :: "int set"
  total_students :: int
  room_ids :: "int set"
  section_room_id :: "int option"
  section_room_name :: "string option"
  section_room_capacity :: "int option"
  meetings :: "meeting list"

record LectureLabPair =
  lecture_section :: Section
  lab_section :: Section

section \<open>Python helpers\<close>

text \<open>\<^verbatim>\<open>str(n)\<close> for an integer: decimal digits, a minus sign for negatives.\<close>

function str_nat :: "nat \<Rightarrow> string" where
  "str_nat n = (if n < 10 then [''0123456789'' ! n]
                else str_nat (n div 10) @ [''0123456789'' ! (n mod 10)])"
  by pat_completeness auto
termination
  by (relation "measure id") auto

declare str_nat.simps [simp del]

definition str_int :: "int \<Rightarrow> string" where
  "str_int i = (if i < 0 then CHR ''-'' # str_nat (nat (- i)) else str_nat (nat i))"





text \<open>
  \<^verbatim>\<open>d[k].append(v)\<close> on a \<^verbatim>\<open>defaultdict(list)\<close>: the list of an existing key
  grows at its end, a new key is added after the others (dictionaries keep insertion order).
\<close>

fun dd_append :: "'k \<Rightarrow> 'v \<Rightarrow> ('k \<times> 'v list) list \<Rightarrow> ('k \<times> 'v list) list" where
  "dd_append k v [] = [(k, [v])]"
| "dd_append k v ((k', vs) # rest) =
     (if k' = k then (k', vs @ [v]) # rest else (k', vs) # dd_append k v rest)"

text \<open>Reading \<^verbatim>\<open>d[k]\<close> (or \<^verbatim>\<open>d.get(k, [])\<close>): the empty list for a missing key.\<close>

definition dd_get :: "('k \<times> 'v list) list \<Rightarrow> 'k \<Rightarrow> 'v list" where
  "dd_get d k = (case map_of d k of None \<Rightarrow> [] | Some vs \<Rightarrow> vs)"

text \<open>\<^verbatim>\<open>for x in xs: d[key(x)].append(x)\<close>\<close>

fun group_loop :: "('a \<Rightarrow> 'k) \<Rightarrow> 'a list \<Rightarrow> ('k \<times> 'a list) list \<Rightarrow> ('k \<times> 'a list) list" where
  "group_loop key [] acc = acc"
| "group_loop key (x # xs) acc = group_loop key xs (dd_append (key x) x acc)"

definition group_by_day :: "meeting list \<Rightarrow> (string \<times> meeting list) list" where
  "group_by_day ms = group_loop day ms []"

text \<open>\<^verbatim>\<open>for entity_id in ids: by_entity[entity_id].append(row)\<close>\<close>

fun append_all :: "'k list \<Rightarrow> 'v \<Rightarrow> ('k \<times> 'v list) list \<Rightarrow> ('k \<times> 'v list) list" where
  "append_all [] row acc = acc"
| "append_all (k # ks) row acc = append_all ks row (dd_append k row acc)"

fun by_entity_loop ::
  "(meeting \<Rightarrow> int list) \<Rightarrow> meeting list \<Rightarrow> (int \<times> meeting list) list \<Rightarrow> (int \<times> meeting list) list" where
  "by_entity_loop keys [] acc = acc"
| "by_entity_loop keys (row # rows) acc = by_entity_loop keys rows (append_all (keys row) row acc)"

text \<open>
  The grouping of the hard checker: a row with a non-empty \<^verbatim>\<open>all_..._ids\<close> list goes
  to every id of the list, otherwise to its single id if that is not \<^verbatim>\<open>None\<close>.
\<close>

definition merged_keys :: "int list option \<Rightarrow> int option \<Rightarrow> int list" where
  "merged_keys all_ids single_id =
     (case all_ids of
        Some (x # xs) \<Rightarrow> x # xs
      | _ \<Rightarrow> (case single_id of Some i \<Rightarrow> [i] | None \<Rightarrow> []))"

definition faculty_keys :: "meeting \<Rightarrow> int list" where
  "faculty_keys row = merged_keys (all_faculty_ids row) (faculty_id row)"

definition batch_keys :: "meeting \<Rightarrow> int list" where
  "batch_keys row = merged_keys (all_batch_ids row) (batch_id row)"


text \<open>The grouping of the soft checker: \<^verbatim>\<open>if row.get(id_field) is not None\<close>.\<close>

definition single_key :: "int option \<Rightarrow> int list" where
  "single_key single_id = (case single_id of Some i \<Rightarrow> [i] | None \<Rightarrow> [])"

datatype entity_kind = Faculty | Batch

definition capitalize :: "entity_kind \<Rightarrow> string" where
  "capitalize et = (case et of Faculty \<Rightarrow> ''Faculty'' | Batch \<Rightarrow> ''Batch'')"

definition hard_keys :: "entity_kind \<Rightarrow> meeting \<Rightarrow> int list" where
  "hard_keys et row = (case et of Faculty \<Rightarrow> faculty_keys row | Batch \<Rightarrow> batch_keys row)"

definition soft_keys :: "entity_kind \<Rightarrow> meeting \<Rightarrow> int list" where
  "soft_keys et row =
     (case et of Faculty \<Rightarrow> single_key (faculty_id row) | Batch \<Rightarrow> single_key (batch_id row))"

text \<open>Names looked up in the reference data, with \<^verbatim>\<open>str(id)\<close> as the default.\<close>

definition faculty_name_of :: "reference_data \<Rightarrow> int \<Rightarrow> string" where
  "faculty_name_of ref fid =
     (case map_of (faculty_by_id ref) fid of
        None \<Rightarrow> str_int fid
      | Some fd \<Rightarrow> (case fd_faculty_name fd of None \<Rightarrow> str_int fid | Some n \<Rightarrow> n))"

definition batch_name_of :: "reference_data \<Rightarrow> int \<Rightarrow> string" where
  "batch_name_of ref bid =
     (case map_of (batches_by_id ref) bid of
        None \<Rightarrow> str_int bid
      | Some bd \<Rightarrow> (case bd_batch_name bd of None \<Rightarrow> str_int bid | Some n \<Rightarrow> n))"


definition subject_name_of :: "reference_data \<Rightarrow> int \<Rightarrow> string" where
  "subject_name_of ref sid =
     (case map_of (subjects_by_id ref) sid of
        None \<Rightarrow> str_int sid
      | Some sd \<Rightarrow> (case sd_subject_name sd of None \<Rightarrow> str_int sid | Some n \<Rightarrow> n))"

definition entity_name_of :: "entity_kind \<Rightarrow> reference_data \<Rightarrow> int \<Rightarrow> string" where
  "entity_name_of et ref eid =
     (case et of Faculty \<Rightarrow> faculty_name_of ref eid | Batch \<Rightarrow> batch_name_of ref eid)"

section \<open>Interval primitives (hard\_constraints.py, lines 11-20)\<close>

definition check_overlap :: "int \<Rightarrow> int \<Rightarrow> int \<Rightarrow> int \<Rightarrow> bool" where
  "check_overlap start1 end1 start2 end2 = (start1 < end2 \<and> start2 < end1)"

definition calculate_overlap_duration :: "int \<Rightarrow> int \<Rightarrow> int \<Rightarrow> int \<Rightarrow> int" where
  "calculate_overlap_duration start1 end1 start2 end2 =
     (let overlap_start = max start1 start2;
          overlap_end = min end1 end2
      in max 0 (overlap_end - overlap_start))"

section \<open>Sections and lecture-lab pairs (section\_builder.py)\<close>

text \<open>The batch ids of a meeting, lines 108-112 of \<^verbatim>\<open>build_sections\<close>.\<close>

definition meeting_batch_ids :: "meeting \<Rightarrow> int list" where
  "meeting_batch_ids m =
     (let batch_ids = (case all_batch_ids m of None \<Rightarrow> [] | Some ids \<Rightarrow> ids)
      in if batch_ids = []
         then (case batch_id m of Some b \<Rightarrow> [b] | None \<Rightarrow> [])
         else batch_ids)"

type_synonym section_key = "int \<times> int option \<times> int set"

text \<open>The first loop of \<^verbatim>\<open>build_sections\<close> (lines 103-128).\<close>

fun meeting_groups_loop ::
  "meeting list \<Rightarrow> (section_key \<times> meeting list) list \<Rightarrow> (section_key \<times> meeting list) list" where
  "meeting_groups_loop [] acc = acc"
| "meeting_groups_loop (m # rest) acc =
     (case subject_id m of
        None \<Rightarrow> meeting_groups_loop rest acc
      | Some sid \<Rightarrow>
          (let batch_ids = meeting_batch_ids m
           in if faculty_id m = None \<and> batch_ids = []
              then meeting_groups_loop rest acc
              else meeting_groups_loop rest
                     (dd_append (sid, faculty_id m, set batch_ids) m acc)))"

definition population_of :: "reference_data \<Rightarrow> int \<Rightarrow> int" where
  "population_of ref bid =
     (case map_of (batches_by_id ref) bid of
        None \<Rightarrow> 0
      | Some bd \<Rightarrow> (case bd_population bd of None \<Rightarrow> 0 | Some n \<Rightarrow> n))"

text \<open>
  One \<^verbatim>\<open>Section\<close> object (lines 134-167): \<^verbatim>\<open>set_faculty\<close>, \<^verbatim>\<open>add_batch\<close> for every
  id of the key's frozenset, \<^verbatim>\<open>add_meeting\<close> and \<^verbatim>\<open>add_room\<close> for every meeting.
  The first meeting with a room gives the primary room. The name sets
  (\<^verbatim>\<open>batch_names\<close>, \<^verbatim>\<open>room_names\<close>) and \<^verbatim>\<open>has_conflict\<close> are not carried.
\<close>

definition make_section ::
  "reference_data \<Rightarrow> int \<Rightarrow> int option \<Rightarrow> int set \<Rightarrow> meeting list \<Rightarrow> nat \<Rightarrow> Section" where
  "make_section ref sid fid batch_ids_frozenset ms idx =
     (let name = subject_name_of ref sid;
          primary = find (\<lambda>m. room_id m \<noteq> None) ms
      in \<lparr>section_subject_id = sid,
          section_subject_name = name,
          section_index = idx,
          section_id = name @ ''-'' @ str_nat idx,
          section_faculty_id = fid,
          section_faculty_name = map_option (faculty_name_of ref) fid,
          batch_ids = batch_ids_frozenset,
          total_students = sum (population_of ref) batch_ids_frozenset,
          room_ids = set (List.map_filter room_id ms),
          section_room_id = (case primary of None \<Rightarrow> None | Some m \<Rightarrow> room_id m),
          section_room_name = (case primary of None \<Rightarrow> None | Some m \<Rightarrow> room_name m),
          section_room_capacity = (case primary of None \<Rightarrow> None | Some m \<Rightarrow> room_capacity m),
          meetings = ms\<rparr>)"

text \<open>
  The second loop (lines 133-169); \<open>next_index\<close> is \<^verbatim>\<open>section_index_by_subject\<close>, a
  \<^verbatim>\<open>defaultdict(int)\<close>.
\<close>

fun sections_loop ::
  "reference_data \<Rightarrow> (section_key \<times> meeting list) list \<Rightarrow> (int \<Rightarrow> nat) \<Rightarrow> Section list" where
  "sections_loop ref [] next_index = []"
| "sections_loop ref (((sid, fid, bs), ms) # rest) next_index =
     make_section ref sid fid bs ms (next_index sid)
     # sections_loop ref rest (next_index(sid := next_index sid + 1))"

definition build_sections :: "meeting list \<Rightarrow> reference_data \<Rightarrow> Section list" where
  "build_sections schedule_rows ref =
     sections_loop ref (meeting_groups_loop schedule_rows []) (\<lambda>_. 0)"

text \<open>\<^verbatim>\<open>find_lecture_lab_pairs\<close> (lines 176-227).\<close>

definition lab_to_lecture :: "reference_data \<Rightarrow> (int \<times> int) list" where
  "lab_to_lecture ref =
     concat (map (\<lambda>(sid, sd).
                    case sd_linked_subject_id sd of
                      None \<Rightarrow> []
                    | Some linked_id \<Rightarrow> if linked_id \<noteq> 0 then [(sid, linked_id)] else [])
                 (subjects_by_id ref))"

definition candidate_pairs :: "Section list \<Rightarrow> reference_data \<Rightarrow> LectureLabPair list" where
  "candidate_pairs sections ref =
     (let sections_by_subject = group_loop section_subject_id sections []
      in concat (map (\<lambda>lab.
           case map_of (lab_to_lecture ref) (section_subject_id lab) of
             None \<Rightarrow> []
           | Some lecture_subject_id \<Rightarrow>
               map (\<lambda>lec. \<lparr>lecture_section = lec, lab_section = lab\<rparr>)
                 (filter (\<lambda>lec. batch_ids lab = batch_ids lec)
                    (dd_get sections_by_subject lecture_subject_id)))
           sections))"

definition find_lecture_lab_pairs ::
  "Section list \<Rightarrow> reference_data \<Rightarrow> LectureLabPair list \<times> LectureLabPair list" where
  "find_lecture_lab_pairs sections ref =
     (let pairs = candidate_pairs sections ref;
          same_faculty = (\<lambda>p. section_faculty_id (lab_section p)
                               = section_faculty_id (lecture_section p))
      in (filter same_faculty pairs, filter (\<lambda>p. \<not> same_faculty p) pairs))"

section \<open>Hard constraints (hard\_constraints.py)\<close>

subsection \<open>Time conflicts (lines 27-205)\<close>







subsection \<open>Room capacity (lines 212-238)\<close>



subsection \<open>Max continuous class (lines 245-357)\<close>

text \<open>
  The loop over \<^verbatim>\<open>i\<close> of lines 308-355, with its two variables \<^verbatim>\<open>block_start\<close> and
  \<^verbatim>\<open>block_end\<close>. The list argument is \<^verbatim>\<open>day_meetings[i:]\<close>; its head is the
  current meeting. What the loop does with a finished block is the parameter \<open>act\<close>:
  at a gap it is applied to \<^verbatim>\<open>(block_start, block_end)\<close>, at the last meeting to
  \<^verbatim>\<open>(block_start, current_end)\<close>.
\<close>

fun hard_block_loop :: "(int \<Rightarrow> int \<Rightarrow> 'a list) \<Rightarrow> int \<Rightarrow> int \<Rightarrow> meeting list \<Rightarrow> 'a list" where
  "hard_block_loop act block_start block_end [] = []"
| "hard_block_loop act block_start block_end [current] =
     act block_start (end_minutes current)"
| "hard_block_loop act block_start block_end (current # next # rest) =
     (if end_minutes current = start_minutes next
      then hard_block_loop act block_start (end_minutes next) (next # rest)
      else act block_start block_end
           @ hard_block_loop act (start_minutes next) (end_minutes next) (next # rest))"

definition hard_block_scan :: "(int \<Rightarrow> int \<Rightarrow> 'a list) \<Rightarrow> meeting list \<Rightarrow> 'a list" where
  "hard_block_scan act day_meetings =
     (case day_meetings of
        [] \<Rightarrow> []
      | first # _ \<Rightarrow> hard_block_loop act (start_minutes first) (end_minutes first) day_meetings)"




text \<open>The spans the hard loop applies its check to.\<close>

definition hard_blocks :: "meeting list \<Rightarrow> (int \<times> int) list" where
  "hard_blocks day_meetings = hard_block_scan (\<lambda>block_start block_end. [(block_start, block_end)]) day_meetings"

subsection \<open>Min gap (lines 364-438)\<close>

text \<open>
  The loop \<^verbatim>\<open>for i in range(len(day_meetings) - 1)\<close> over adjacent meetings of the
  sorted day list.
\<close>

fun gap_loop :: "entity_kind \<Rightarrow> string \<Rightarrow> string \<Rightarrow> int \<Rightarrow> meeting list \<Rightarrow> violation list" where
  "gap_loop et name d min_gap_minutes (current # next # rest) =
     (let gap = start_minutes next - end_minutes current
      in (if gap > 0 \<and> gap < min_gap_minutes
          then [\<lparr>vtype = ''Min Gap Violation'', entity_type = capitalize et,
                 entity_name = name, vday = Some d,
                 magnitude = min_gap_minutes - gap\<rparr>]
          else []))
     @ gap_loop et name d min_gap_minutes (next # rest)"
| "gap_loop et name d min_gap_minutes _ = []"

definition check_gap_for_entity_type ::
  "meeting list \<Rightarrow> reference_data \<Rightarrow> entity_kind \<Rightarrow> int \<Rightarrow> violation list" where
  "check_gap_for_entity_type schedule_rows ref et min_gap_minutes =
     concat (map (\<lambda>(eid, ms).
       concat (map (\<lambda>(d, day_meetings).
                 gap_loop et (entity_name_of et ref eid) d min_gap_minutes
                   (sort_key start_minutes day_meetings))
               (group_by_day ms)))
       (by_entity_loop (hard_keys et) schedule_rows []))"

definition check_min_gap :: "meeting list \<Rightarrow> reference_data \<Rightarrow> config \<Rightarrow> violation list" where
  "check_min_gap schedule_rows ref cfg =
     (let min_gap_minutes = MIN_GAP_MINUTES cfg
      in check_gap_for_entity_type schedule_rows ref Faculty min_gap_minutes
         @ check_gap_for_entity_type schedule_rows ref Batch min_gap_minutes)"

subsection \<open>Banned times (lines 445-496)\<close>




subsection \<open>Lecture-lab separation (lines 503-587)\<close>

definition lecture_lab_meeting_check ::
  "LectureLabPair \<Rightarrow> string \<Rightarrow> meeting \<Rightarrow> meeting \<Rightarrow> violation list" where
  "lecture_lab_meeting_check pair d lec_m lab_m =
     (let is_back_to_back = (end_minutes lec_m = start_minutes lab_m
                             \<or> end_minutes lab_m = start_minutes lec_m);
          same_room = (room_id lec_m = room_id lab_m \<and> room_id lec_m \<noteq> None);
          v = \<lparr>vtype = ''Lecture-Lab Separation'', entity_type = ''Section'',
               entity_name = section_id (lecture_section pair) @ '' + ''
                               @ section_id (lab_section pair),
               vday = Some d, magnitude = 1\<rparr>
      in if \<not> is_back_to_back then [v]
         else if \<not> same_room then [v]
         else [])"

text \<open>
  \<^verbatim>\<open>common_days\<close> is a Python set; the order in which it is iterated is not fixed by
  the language. The model takes the days in the order of the lecture section's meetings.
\<close>

definition lecture_lab_pair_check :: "LectureLabPair \<Rightarrow> violation list" where
  "lecture_lab_pair_check pair =
     (let lecture_by_day = group_by_day (meetings (lecture_section pair));
          lab_by_day = group_by_day (meetings (lab_section pair));
          common_days = filter (\<lambda>d. d \<in> set (map fst lab_by_day)) (map fst lecture_by_day)
      in concat (map (\<lambda>d.
           concat (map (\<lambda>lec_m.
             concat (map (\<lambda>lab_m. lecture_lab_meeting_check pair d lec_m lab_m)
                         (dd_get lab_by_day d)))
             (dd_get lecture_by_day d)))
           common_days))"

definition check_lecture_lab_separation ::
  "LectureLabPair list \<Rightarrow> reference_data \<Rightarrow> violation list" where
  "check_lecture_lab_separation valid_pairs ref = concat (map lecture_lab_pair_check valid_pairs)"

subsection \<open>All hard constraints (lines 594-626)\<close>


section \<open>Soft constraints (soft\_constraints.py)\<close>

subsection \<open>Faculty overload and underfill (lines 15-89)\<close>

text \<open>\<^verbatim>\<open>faculty_minutes[k] += d\<close> on a \<^verbatim>\<open>defaultdict(int)\<close>.\<close>

fun dd_add :: "'k \<Rightarrow> int \<Rightarrow> ('k \<times> int) list \<Rightarrow> ('k \<times> int) list" where
  "dd_add k d [] = [(k, 0 + d)]"
| "dd_add k d ((k', n) # rest) =
     (if k' = k then (k', n + d) # rest else (k', n) # dd_add k d rest)"

fun faculty_minutes_loop :: "meeting list \<Rightarrow> (int \<times> int) list \<Rightarrow> (int \<times> int) list" where
  "faculty_minutes_loop [] acc = acc"
| "faculty_minutes_loop (row # rows) acc =
     (case faculty_id row of
        None \<Rightarrow> faculty_minutes_loop rows acc
      | Some fid \<Rightarrow>
          faculty_minutes_loop rows (dd_add fid (end_minutes row - start_minutes row) acc))"

text \<open>\<^verbatim>\<open>faculty_data.get('max_hours_per_week', 0) * 60\<close>, and the same for the minimum.\<close>

definition max_minutes_of :: "faculty_data option \<Rightarrow> int" where
  "max_minutes_of faculty_data =
     (case faculty_data of
        None \<Rightarrow> 0
      | Some fd \<Rightarrow> (case fd_max_hours_per_week fd of None \<Rightarrow> 0 | Some h \<Rightarrow> h)) * 60"

definition min_minutes_of :: "faculty_data \<Rightarrow> int" where
  "min_minutes_of fd = (case fd_min_hours_per_week fd of None \<Rightarrow> 0 | Some h \<Rightarrow> h) * 60"

text \<open>
  The loop of lines 30-48. The penalty is computed before the violation is appended, and
  its weight is read from \<^verbatim>\<open>config.FACULTY_OVERLOAD_PER_MINUTE\<close>.
\<close>

fun overload_loop ::
  "reference_data \<Rightarrow> (int \<times> int) list \<Rightarrow> violation list \<Rightarrow> error + violation list" where
  "overload_loop ref [] violations = Inr violations"
| "overload_loop ref ((fid, total_minutes) # rest) violations =
     (let max_minutes = max_minutes_of (map_of (faculty_by_id ref) fid)
      in if max_minutes > 0 \<and> total_minutes > max_minutes
         then (case config_getattr ''FACULTY_OVERLOAD_PER_MINUTE'' of
                 Inl e \<Rightarrow> Inl e
               | Inr _ \<Rightarrow>
                   overload_loop ref rest
                     (violations @ [\<lparr>vtype = ''Faculty Overload'', entity_type = ''Faculty'',
                                     entity_name = faculty_name_of ref fid, vday = None,
                                     magnitude = total_minutes - max_minutes\<rparr>]))
         else overload_loop ref rest violations)"

definition check_faculty_overload ::
  "meeting list \<Rightarrow> reference_data \<Rightarrow> config \<Rightarrow> error + violation list" where
  "check_faculty_overload schedule_rows ref cfg =
     overload_loop ref (faculty_minutes_loop schedule_rows []) []"

text \<open>The loop of lines 69-87, over \<^verbatim>\<open>reference_data.faculty_by_id.items()\<close>.\<close>

fun underfill_loop ::
  "(int \<times> int) list \<Rightarrow> (int \<times> faculty_data) list \<Rightarrow> violation list \<Rightarrow> error + violation list" where
  "underfill_loop faculty_minutes [] violations = Inr violations"
| "underfill_loop faculty_minutes ((fid, fd) # rest) violations =
     (let name = (case fd_faculty_name fd of None \<Rightarrow> str_int fid | Some n \<Rightarrow> n);
          min_minutes = min_minutes_of fd;
          total_minutes = (case map_of faculty_minutes fid of None \<Rightarrow> 0 | Some t \<Rightarrow> t)
      in if min_minutes > 0 \<and> total_minutes < min_minutes
         then (case config_getattr ''FACULTY_UNDERFILL_PER_MINUTE'' of
                 Inl e \<Rightarrow> Inl e
               | Inr _ \<Rightarrow>
                   underfill_loop faculty_minutes rest
                     (violations @ [\<lparr>vtype = ''Faculty Underfill'', entity_type = ''Faculty'',
                                     entity_name = name, vday = None,
                                     magnitude = min_minutes - total_minutes\<rparr>]))
         else underfill_loop faculty_minutes rest violations)"

definition check_faculty_underfill ::
  "meeting list \<Rightarrow> reference_data \<Rightarrow> config \<Rightarrow> error + violation list" where
  "check_faculty_underfill schedule_rows ref cfg =
     underfill_loop (faculty_minutes_loop schedule_rows []) (faculty_by_id ref) []"

subsection \<open>Section overfill and underfill (lines 96-161)\<close>







subsection \<open>Min continuous class (lines 168-257)\<close>

text \<open>
  The loop of lines 223-233, \<^verbatim>\<open>for i in range(1, len(day_meetings))\<close>: the list
  argument is \<^verbatim>\<open>day_meetings[i:]\<close>, the result the blocks appended from here on.
\<close>

fun soft_block_loop :: "int \<Rightarrow> int \<Rightarrow> meeting list \<Rightarrow> (int \<times> int) list" where
  "soft_block_loop block_start block_end [] = [(block_start, block_end)]"
| "soft_block_loop block_start block_end (current # rest) =
     (if start_minutes current = block_end
      then soft_block_loop block_start (end_minutes current) rest
      else (block_start, block_end)
           # soft_block_loop (start_minutes current) (end_minutes current) rest)"

definition soft_blocks :: "meeting list \<Rightarrow> (int \<times> int) list" where
  "soft_blocks day_meetings =
     (case day_meetings of
        [] \<Rightarrow> []
      | first # rest \<Rightarrow> soft_block_loop (start_minutes first) (end_minutes first) rest)"

definition min_continuous_check ::
  "entity_kind \<Rightarrow> string \<Rightarrow> string \<Rightarrow> int \<Rightarrow> int \<times> int \<Rightarrow> violation list" where
  "min_continuous_check et name d min_minutes block =
     (let block_duration = snd block - fst block
      in if block_duration > 0 \<and> block_duration < min_minutes
         then [\<lparr>vtype = ''Min Continuous Class'', entity_type = capitalize et,
                entity_name = name, vday = Some d,
                magnitude = min_minutes - block_duration\<rparr>]
         else [])"

definition check_min_continuous_for_entity ::
  "meeting list \<Rightarrow> reference_data \<Rightarrow> entity_kind \<Rightarrow> int \<Rightarrow> violation list" where
  "check_min_continuous_for_entity schedule_rows ref et min_minutes =
     concat (map (\<lambda>(eid, ms).
       concat (map (\<lambda>(d, day_meetings).
                 concat (map (min_continuous_check et (entity_name_of et ref eid) d min_minutes)
                             (soft_blocks (sort_key start_minutes day_meetings))))
               (group_by_day ms)))
       (by_entity_loop (soft_keys et) schedule_rows []))"


subsection \<open>Excess gap (lines 264-334)\<close>

fun excess_gap_loop ::
  "entity_kind \<Rightarrow> string \<Rightarrow> string \<Rightarrow> int \<Rightarrow> meeting list \<Rightarrow> violation list" where
  "excess_gap_loop et name d excess_threshold (current # next # rest) =
     (let gap = start_minutes next - end_minutes current
      in (if gap > excess_threshold
          then [\<lparr>vtype = ''Excess Gap'', entity_type = capitalize et,
                 entity_name = name, vday = Some d,
                 magnitude = gap - excess_threshold\<rparr>]
          else []))
     @ excess_gap_loop et name d excess_threshold (next # rest)"
| "excess_gap_loop et name d excess_threshold _ = []"

definition check_excess_gap_for_entity ::
  "meeting list \<Rightarrow> reference_data \<Rightarrow> entity_kind \<Rightarrow> int \<Rightarrow> violation list" where
  "check_excess_gap_for_entity schedule_rows ref et excess_threshold =
     concat (map (\<lambda>(eid, ms).
       concat (map (\<lambda>(d, day_meetings).
                 excess_gap_loop et (entity_name_of et ref eid) d excess_threshold
                   (sort_key start_minutes day_meetings))
               (group_by_day ms)))
       (by_entity_loop (soft_keys et) schedule_rows []))"


subsection \<open>Non-preferred subject (lines 341-386)\<close>

definition preferred_subjects_of :: "reference_data \<Rightarrow> int \<Rightarrow> int list" where
  "preferred_subjects_of ref fid =
     (case map_of (faculty_by_id ref) fid of
        None \<Rightarrow> []
      | Some fd \<Rightarrow> (case fd_preferred_subjects fd of None \<Rightarrow> [] | Some ps \<Rightarrow> ps))"

text \<open>The loop of lines 353-363 that fills \<^verbatim>\<open>faculty_subject_sections\<close>.\<close>

fun non_preferred_loop ::
  "reference_data \<Rightarrow> meeting list \<Rightarrow> ((int \<times> int) \<times> meeting list) list
     \<Rightarrow> ((int \<times> int) \<times> meeting list) list" where
  "non_preferred_loop ref [] acc = acc"
| "non_preferred_loop ref (row # rows) acc =
     (case faculty_id row of
        None \<Rightarrow> non_preferred_loop ref rows acc
      | Some fid \<Rightarrow>
          (case subject_id row of
             None \<Rightarrow> non_preferred_loop ref rows acc
           | Some sid \<Rightarrow>
               (let preferred_subjects = preferred_subjects_of ref fid
                in if preferred_subjects \<noteq> [] \<and> sid \<notin> set preferred_subjects
                   then non_preferred_loop ref rows (dd_append (fid, sid) row acc)
                   else non_preferred_loop ref rows acc)))"

definition check_non_preferred_subject ::
  "meeting list \<Rightarrow> reference_data \<Rightarrow> config \<Rightarrow> violation list" where
  "check_non_preferred_subject schedule_rows ref cfg =
     map (\<lambda>((fid, sid), sections).
            (let num_sections = int (length sections)
             in \<lparr>vtype = ''Non-Preferred Subject'', entity_type = ''Faculty'',
                 entity_name = faculty_name_of ref fid, vday = None,
                 magnitude = num_sections\<rparr>))
         (non_preferred_loop ref schedule_rows [])"

subsection \<open>Friday late classes (lines 393-419)\<close>



subsection \<open>Excess subjects per faculty (lines 426-493)\<close>





subsection \<open>External meeting conflicts (lines 500-545)\<close>



subsection \<open>All soft constraints (lines 552-589)\<close>


section \<open>The evaluator (evaluator.py, lines 112-179)\<close>



section \<open>Loading the faculty table (data\_loader.py, lines 91-124)\<close>

text \<open>
  One parsed row of \<^verbatim>\<open>faculty.csv\<close>, and the dictionary \<^verbatim>\<open>_load_faculty\<close> stores for
  it. The keys written are \<^verbatim>\<open>faculty_id\<close>, \<^verbatim>\<open>faculty_name\<close>, \<^verbatim>\<open>min_load\<close>,
  \<^verbatim>\<open>max_load\<close>, \<^verbatim>\<open>max_subjects\<close>, \<^verbatim>\<open>preferred_subjects\<close> and
  \<^verbatim>\<open>qualified_subjects\<close>; no other key is ever added to a faculty dictionary. The
  loads are floating-point numbers in the source and rationals here; no checker reads them.
\<close>

record faculty_row =
  fr_faculty_id :: int
  fr_faculty_name :: string
  fr_min_load :: rat
  fr_max_load :: rat
  fr_max_subjects :: int
  fr_preferred_subjects :: "int list"
  fr_qualified_subjects :: "int list"

definition faculty_dict :: "faculty_row \<Rightarrow> faculty_data" where
  "faculty_dict row =
     \<lparr>fd_faculty_name = Some (fr_faculty_name row),
      fd_min_load = Some (fr_min_load row),
      fd_max_load = Some (fr_max_load row),
      fd_max_subjects = Some (fr_max_subjects row),
      fd_preferred_subjects = Some (fr_preferred_subjects row),
      fd_qualified_subjects = Some (fr_qualified_subjects row),
      fd_max_hours_per_week = None,
      fd_min_hours_per_week = None\<rparr>"

text \<open>\<^verbatim>\<open>d[k] = v\<close> on a dictionary: an existing key keeps its place.\<close>

fun dict_set :: "'k \<Rightarrow> 'v \<Rightarrow> ('k \<times> 'v) list \<Rightarrow> ('k \<times> 'v) list" where
  "dict_set k v [] = [(k, v)]"
| "dict_set k v ((k', v') # rest) =
     (if k' = k then (k', v) # rest else (k', v') # dict_set k v rest)"

fun load_faculty :: "faculty_row list \<Rightarrow> (int \<times> faculty_data) list \<Rightarrow> (int \<times> faculty_data) list" where
  "load_faculty [] by_id = by_id"
| "load_faculty (row # rows) by_id =
     load_faculty rows (dict_set (fr_faculty_id row) (faculty_dict row) by_id)"

section \<open>Schedule rows as the loader builds them (data\_loader.py, lines 354-386)\<close>

text \<open>
  The dictionary \<^verbatim>\<open>_map_row\<close> returns for a CSV row whose faculty and room are
  resolved as given (id and name, for the room also the capacity) and whose batch field
  resolves to the ids \<open>bids\<close>. The keys \<^verbatim>\<open>all_faculty_ids\<close>, \<^verbatim>\<open>all_faculty_names\<close>
  and \<^verbatim>\<open>all_room_ids\<close> are absent from such a row; \<^verbatim>\<open>all_batch_ids\<close> is the id
  list when there are at least two batches and \<^verbatim>\<open>None\<close> otherwise; \<^verbatim>\<open>batch_id\<close>
  is the first batch.
\<close>

definition map_row ::
  "int option \<Rightarrow> string \<Rightarrow> (int \<times> string) option \<Rightarrow> (int \<times> string \<times> int) option \<Rightarrow> int list
     \<Rightarrow> string \<Rightarrow> int \<Rightarrow> int \<Rightarrow> meeting" where
  "map_row sid sname fac room bids d s e =
     \<lparr>subject_id = sid, subject_name = sname,
      faculty_id = map_option fst fac, faculty_name = map_option snd fac,
      all_faculty_ids = None, all_faculty_names = None,
      room_id = map_option fst room, room_name = map_option (fst \<circ> snd) room,
      room_capacity = map_option (snd \<circ> snd) room, all_room_ids = None,
      batch_id = (case bids of [] \<Rightarrow> None | b # _ \<Rightarrow> Some b),
      all_batch_ids = (if length bids > 1 then Some bids else None),
      day = d, start_minutes = s, end_minutes = e\<rparr>"

definition empty_reference :: reference_data where
  "empty_reference =
     \<lparr>faculty_by_id = [], subjects_by_id = [], rooms_by_id = [], batches_by_id = [],
      banned_times = [], external_meetings = None\<rparr>"

text \<open>The default thresholds of \<^verbatim>\<open>Config\<close>, in minutes (config\_loader.py, 74-103).\<close>

definition default_config :: config where
  "default_config =
     \<lparr>MAX_CONTINUOUS_CLASS_MINUTES = 180, MIN_CONTINUOUS_CLASS_MINUTES = 90,
      MIN_GAP_MINUTES = 30, EXCESS_GAP_MINUTES = 30, FRIDAY_LATE_MINUTES = 750,
      MAX_SUBJECTS_PER_FACULTY = 5\<rparr>"

section \<open>Example data\<close>

definition example_faculty_rows :: "faculty_row list" where
  "example_faculty_rows =
     [\<lparr>fr_faculty_id = 1, fr_faculty_name = ''Cruz'', fr_min_load = 1, fr_max_load = 1,
       fr_max_subjects = 5, fr_preferred_subjects = [7], fr_qualified_subjects = [7, 9]\<rparr>]"

definition example_reference :: reference_data where
  "example_reference = empty_reference\<lparr>faculty_by_id := load_faculty example_faculty_rows []\<rparr>"

definition gap_example_rows :: "meeting list" where
  "gap_example_rows =
     [map_row (Some 9) ''ICS 103'' (Some (1, ''Cruz'')) None [] ''MONDAY'' 480 540,
      map_row (Some 9) ''ICS 103'' (Some (1, ''Cruz'')) None [] ''MONDAY'' 560 620]"

text \<open>
  The two tests of \<^verbatim>\<open>build_sections\<close> (lines 104 and 115) a meeting passes to be grouped.
\<close>

definition classifiable :: "meeting \<Rightarrow> bool" where
  "classifiable m = (subject_id m \<noteq> None \<and> (faculty_id m \<noteq> None \<or> meeting_batch_ids m \<noteq> []))"

definition section_example_rows :: "meeting list" where
  "section_example_rows =
     [map_row (Some 9) ''ICS 109'' (Some (1, ''Cruz'')) (Some (3, ''R3'', 40)) [1] ''MONDAY'' 480 540,
      map_row (Some 9) ''ICS 109'' (Some (1, ''Cruz'')) (Some (3, ''R3'', 40)) [1] ''WEDNESDAY'' 480 540,
      map_row None ''Seminar'' (Some (1, ''Cruz'')) None [1] ''THURSDAY'' 480 540]"

definition overload_example_rows :: "meeting list" where
  "overload_example_rows =
     [map_row (Some 7) ''ICS 107'' (Some (1, ''Cruz'')) None [1] ''MONDAY'' 480 720,
      map_row (Some 7) ''ICS 107'' (Some (1, ''Cruz'')) None [1] ''TUESDAY'' 480 720]"

definition merged_meeting :: meeting where
  "merged_meeting =
     \<lparr>subject_id = Some 9, subject_name = ''ICS 109'',
      faculty_id = Some 1, faculty_name = Some ''Cruz'',
      all_faculty_ids = Some [1, 2], all_faculty_names = Some [''Cruz'', ''Reyes''],
      room_id = None, room_name = None, room_capacity = None, all_room_ids = Some [],
      batch_id = None, all_batch_ids = Some [],
      day = ''MONDAY'', start_minutes = 480, end_minutes = 540\<rparr>"

definition later_meeting :: meeting where
  "later_meeting = map_row (Some 7) ''ICS 107'' (Some (2, ''Reyes'')) None [] ''MONDAY'' 700 760"

definition merged_example_rows :: "meeting list" where
  "merged_example_rows = [merged_meeting, later_meeting]"


definition friday_example_rows :: "meeting list" where
  "friday_example_rows =
     [map_row (Some 7) ''ICS 107'' (Some (1, ''Cruz'')) None [] ''FRIDAY'' 660 800]"


section \<open>The Min Gap rule in the words of the specification\<close>

text \<open>
  The following definitions are not taken from the code. They say, in the fields of a
  schedule row, what claim C6 expects of the hard Min Gap check; the code's
  \<open>check_min_gap\<close> is compared with them below.

  The order in which keys first occur in a list (the order of a Python dictionary's keys).
\<close>

definition first_seen :: "'a list \<Rightarrow> 'a list" where
  "first_seen xs = fold (\<lambda>x seen. if x \<in> set seen then seen else seen @ [x]) xs []"

text \<open>
  The entities a row belongs to: every id of a non-empty \<^verbatim>\<open>all_faculty_ids\<close>
  (\<^verbatim>\<open>all_batch_ids\<close>) list, otherwise the single \<^verbatim>\<open>faculty_id\<close>
  (\<^verbatim>\<open>batch_id\<close>) if there is one.
\<close>

definition entity_ids :: "entity_kind \<Rightarrow> meeting \<Rightarrow> int list" where
  "entity_ids et row =
     (case et of
        Faculty \<Rightarrow>
          (if all_faculty_ids row = None \<or> all_faculty_ids row = Some []
           then (case faculty_id row of None \<Rightarrow> [] | Some i \<Rightarrow> [i])
           else the (all_faculty_ids row))
      | Batch \<Rightarrow>
          (if all_batch_ids row = None \<or> all_batch_ids row = Some []
           then (case batch_id row of None \<Rightarrow> [] | Some i \<Rightarrow> [i])
           else the (all_batch_ids row)))"

text \<open>The meetings of an entity, in schedule order, once for each time the row lists it.\<close>

definition entity_meetings :: "entity_kind \<Rightarrow> int \<Rightarrow> meeting list \<Rightarrow> meeting list" where
  "entity_meetings et e schedule_rows =
     concat (map (\<lambda>row. replicate (count_list (entity_ids et row) e) row) schedule_rows)"

text \<open>
  The shortfalls of a day list: for consecutive meetings, minimum minus gap wherever the
  gap is strictly positive and strictly below the minimum.
\<close>

definition short_gaps :: "int \<Rightarrow> meeting list \<Rightarrow> int list" where
  "short_gaps min_gap ms =
     map (\<lambda>(cur, nxt). min_gap - (start_minutes nxt - end_minutes cur))
         (filter (\<lambda>(cur, nxt). 0 < start_minutes nxt - end_minutes cur
                               \<and> start_minutes nxt - end_minutes cur < min_gap)
                 (zip ms (tl ms)))"

text \<open>
  One violation for every such shortfall, for every entity of the kind, every day on
  which the entity meets, and the day's meetings sorted by start minutes.
\<close>

definition min_gap_expected ::
  "entity_kind \<Rightarrow> meeting list \<Rightarrow> reference_data \<Rightarrow> int \<Rightarrow> violation list" where
  "min_gap_expected et schedule_rows ref min_gap =
     concat (map (\<lambda>e.
       concat (map (\<lambda>d.
         map (\<lambda>shortfall. \<lparr>vtype = ''Min Gap Violation'', entity_type = capitalize et,
                            entity_name = entity_name_of et ref e, vday = Some d,
                            magnitude = shortfall\<rparr>)
             (short_gaps min_gap
                (sort_key start_minutes
                   (filter (\<lambda>m. day m = d) (entity_meetings et e schedule_rows)))))
         (first_seen (map day (entity_meetings et e schedule_rows)))))
       (first_seen (concat (map (entity_ids et) schedule_rows))))"

definition batch_gap_example_rows :: "meeting list" where
  "batch_gap_example_rows =
     [map_row (Some 9) ''ICS 109'' (Some (1, ''Cruz'')) None [1, 2] ''MONDAY'' 480 540,
      map_row (Some 7) ''ICS 107'' (Some (2, ''Reyes'')) None [2] ''MONDAY'' 560 620]"

section \<open>The Lecture-Lab Separation rule in the words of the specification\<close>

text \<open>
  These definitions are not taken from the code; they say what claim C4 expects, in the
  fields of the meetings. Two meetings are back-to-back when one ends at the minute the
  other starts.
\<close>

definition back_to_back :: "meeting \<Rightarrow> meeting \<Rightarrow> bool" where
  "back_to_back lec_m lab_m =
     (end_minutes lec_m = start_minutes lab_m \<or> end_minutes lab_m = start_minutes lec_m)"

text \<open>Both meetings are assigned a room, and it is the same room.\<close>

definition identical_room :: "meeting \<Rightarrow> meeting \<Rightarrow> bool" where
  "identical_room lec_m lab_m =
     (case room_id lec_m of None \<Rightarrow> False | Some r \<Rightarrow> room_id lab_m = Some r)"

text \<open>
  Back-to-back with identical room is the only case without a violation. In particular
  two back-to-back meetings of which one has no room assigned are in violation.
\<close>

definition separation_violated :: "meeting \<Rightarrow> meeting \<Rightarrow> bool" where
  "separation_violated lec_m lab_m =
     (if back_to_back lec_m lab_m then (if identical_room lec_m lab_m then False else True)
      else True)"

definition separation_violation :: "LectureLabPair \<Rightarrow> string \<Rightarrow> violation" where
  "separation_violation pair d =
     \<lparr>vtype = ''Lecture-Lab Separation'', entity_type = ''Section'',
      entity_name = section_id (lecture_section pair) @ '' + '' @ section_id (lab_section pair),
      vday = Some d, magnitude = 1\<rparr>"

text \<open>
  One violation for every day on which both sections meet and every pair of a lecture
  meeting and a lab meeting of that day that is in violation. The days are taken in the
  order of the lecture section's meetings.
\<close>

definition separation_expected :: "LectureLabPair \<Rightarrow> violation list" where
  "separation_expected pair =
     concat (map (\<lambda>d.
       concat (map (\<lambda>lec_m.
         concat (map (\<lambda>lab_m. if separation_violated lec_m lab_m
                               then [separation_violation pair d] else [])
                     (filter (\<lambda>m. day m = d) (meetings (lab_section pair)))))
         (filter (\<lambda>m. day m = d) (meetings (lecture_section pair)))))
       (filter (\<lambda>d. d \<in> day ` set (meetings (lab_section pair)))
               (first_seen (map day (meetings (lecture_section pair))))))"

text \<open>
  A lecture of subject 9 and its lab (subject 10, linked to 9), same faculty and batch, on
  one day: the lab right after the lecture in another room, right after it in the same
  room, and an hour after it.
\<close>

definition ll_reference :: reference_data where
  "ll_reference = example_reference
     \<lparr>subjects_by_id :=
        [(9, \<lparr>sd_subject_name = Some ''ICS 103'', sd_linked_subject_id = None\<rparr>),
         (10, \<lparr>sd_subject_name = Some ''ICS 103 Lab'', sd_linked_subject_id = Some 9\<rparr>)]\<rparr>"

definition lec_meeting :: meeting where
  "lec_meeting = map_row (Some 9) ''ICS 103'' (Some (1, ''Cruz'')) (Some (3, ''R3'', 40)) [1]
                   ''MONDAY'' 480 540"

definition lab_other_room :: meeting where
  "lab_other_room = map_row (Some 10) ''ICS 103 Lab'' (Some (1, ''Cruz'')) (Some (4, ''LAB1'', 30))
                      [1] ''MONDAY'' 540 720"

definition lab_same_room :: meeting where
  "lab_same_room = map_row (Some 10) ''ICS 103 Lab'' (Some (1, ''Cruz'')) (Some (3, ''R3'', 40))
                     [1] ''MONDAY'' 540 720"

definition lab_apart :: meeting where
  "lab_apart = map_row (Some 10) ''ICS 103 Lab'' (Some (1, ''Cruz'')) (Some (3, ''R3'', 40))
                 [1] ''MONDAY'' 600 780"

definition ll_pair :: "meeting \<Rightarrow> LectureLabPair" where
  "ll_pair lab_m =
     \<lparr>lecture_section = make_section ll_reference 9 (Some 1) {1} [lec_meeting] 0,
      lab_section = make_section ll_reference 10 (Some 1) {1} [lab_m] 0\<rparr>"

section \<open>Properties of the interval primitives\<close>

text \<open>
  Claim C5, as stated, fails: for bounds that do not describe an interval (an end before
  its start) \<open>check_overlap\<close> can answer true while the clamped duration is \<open>0\<close> and
  not \<open>min e1 e2 - max s1 s2\<close>. Such bounds reach the code: a schedule row whose end
  time is earlier than its start time is loaded as it is.
\<close>

theorem overlap_duration_counterexample:
  "check_overlap 5 3 0 10 \<and> calculate_overlap_duration 5 3 0 10 \<noteq> min 3 10 - max 5 0"
  by (simp add: check_overlap_def calculate_overlap_duration_def)

text \<open>
  Claim C5, amended: for all integer bounds \<open>check_overlap\<close> is the half-open test
  \<open>s1 < e2 \<and> s2 < e1\<close> (touching intervals do not overlap) and
  \<open>calculate_overlap_duration\<close> is \<open>max 0 (min e1 e2 - max s1 s2)\<close>; the duration is
  \<open>min e1 e2 - max s1 s2\<close> whenever the intervals overlap and each of them has its
  start no later than its end, and it is \<open>0\<close> whenever they do not overlap (touching or
  disjoint).
\<close>

theorem overlap_primitives:
  "check_overlap s1 e1 s2 e2 = (s1 < e2 \<and> s2 < e1)
   \<and> ((s1 = e2 \<or> s2 = e1) \<and> s1 \<le> e1 \<and> s2 \<le> e2 \<longrightarrow> \<not> check_overlap s1 e1 s2 e2)
   \<and> calculate_overlap_duration s1 e1 s2 e2 = max 0 (min e1 e2 - max s1 s2)
   \<and> (check_overlap s1 e1 s2 e2 \<and> s1 \<le> e1 \<and> s2 \<le> e2 \<longrightarrow>
        calculate_overlap_duration s1 e1 s2 e2 = min e1 e2 - max s1 s2)
   \<and> (\<not> check_overlap s1 e1 s2 e2 \<longrightarrow> calculate_overlap_duration s1 e1 s2 e2 = 0)"
  by (auto simp: check_overlap_def calculate_overlap_duration_def Let_def)

theorem overlap_primitives_witness:
  "check_overlap 480 540 510 600 \<and> (480::int) \<le> 540 \<and> (510::int) \<le> 600
   \<and> calculate_overlap_duration 480 540 510 600 = 30
   \<and> (540::int) = 540 \<and> (540::int) \<le> 600
   \<and> \<not> check_overlap 480 540 540 600
   \<and> calculate_overlap_duration 480 540 540 600 = 0"
  using overlap_primitives [of 480 540 510 600] overlap_primitives [of 480 540 540 600]
  by simp

section \<open>Grouping dictionaries\<close>

lemma dd_get_Nil: "dd_get [] k = []"
  by (simp add: dd_get_def)

lemma dd_get_dd_append:
  "dd_get (dd_append k v acc) k' = (if k' = k then dd_get acc k @ [v] else dd_get acc k')"
  by (induction acc) (auto simp: dd_get_def)

lemma keys_dd_append:
  "map fst (dd_append k v acc)
     = (if k \<in> fst ` set acc then map fst acc else map fst acc @ [k])"
  by (induction acc) (force simp: image_iff)+

lemma keyset_dd_append: "fst ` set (dd_append k v acc) = insert k (fst ` set acc)"
proof -
  have "set (map fst (dd_append k v acc)) = insert k (fst ` set acc)"
    by (auto simp: keys_dd_append)
  then show ?thesis by simp
qed

lemma distinct_dd_append:
  "distinct (map fst acc) \<Longrightarrow> distinct (map fst (dd_append k v acc))"
  by (simp add: keys_dd_append)

lemma dd_get_group_loop:
  "dd_get (group_loop key xs acc) k = dd_get acc k @ filter (\<lambda>x. key x = k) xs"
  by (induction xs arbitrary: acc) (auto simp: dd_get_dd_append)

lemma keyset_group_loop:
  "fst ` set (group_loop key xs acc) = fst ` set acc \<union> key ` set xs"
  by (induction xs arbitrary: acc) (simp_all add: keyset_dd_append)

lemma distinct_group_loop:
  "distinct (map fst acc) \<Longrightarrow> distinct (map fst (group_loop key xs acc))"
  by (induction xs arbitrary: acc) (auto simp: distinct_dd_append)

lemma dd_get_append_all:
  "dd_get (append_all ks row acc) k = dd_get acc k @ replicate (count_list ks k) row"
  by (induction ks arbitrary: acc) (auto simp: dd_get_dd_append replicate_append_same)

lemma distinct_append_all:
  "distinct (map fst acc) \<Longrightarrow> distinct (map fst (append_all ks row acc))"
  by (induction ks arbitrary: acc) (auto simp: distinct_dd_append)

lemma dd_get_by_entity_loop:
  "dd_get (by_entity_loop keys rows acc) k
     = dd_get acc k @ concat (map (\<lambda>row. replicate (count_list (keys row) k) row) rows)"
  by (induction rows arbitrary: acc) (auto simp: dd_get_append_all)

lemma distinct_by_entity_loop:
  "distinct (map fst acc) \<Longrightarrow> distinct (map fst (by_entity_loop keys rows acc))"
  by (induction rows arbitrary: acc) (auto simp: distinct_append_all)

lemma dd_get_member:
  "distinct (map fst acc) \<Longrightarrow> (k, vs) \<in> set acc \<Longrightarrow> dd_get acc k = vs"
  by (simp add: dd_get_def)

lemma by_entity_group:
  assumes "(eid, ms) \<in> set (by_entity_loop keys rows [])"
  shows "ms = concat (map (\<lambda>row. replicate (count_list (keys row) eid) row) rows)"
proof -
  have "distinct (map fst (by_entity_loop keys rows []))"
    by (rule distinct_by_entity_loop) simp
  from dd_get_member [OF this assms] show ?thesis
    by (simp add: dd_get_by_entity_loop dd_get_Nil)
qed

lemma by_day_group:
  assumes "(d, dms) \<in> set (group_by_day ms)"
  shows "dms = filter (\<lambda>m. day m = d) ms"
proof -
  have "distinct (map fst (group_by_day ms))"
    unfolding group_by_day_def by (rule distinct_group_loop) simp
  from dd_get_member [OF this assms] show ?thesis
    by (simp add: group_by_day_def dd_get_group_loop dd_get_Nil)
qed

section \<open>Continuous blocks\<close>

lemma hard_loop_is_soft_loop:
  "hard_block_loop (\<lambda>s e. [(s, e)]) bs (end_minutes m) (m # rest)
     = soft_block_loop bs (end_minutes m) rest"
  by (induction rest arbitrary: bs m) auto

lemma hard_block_loop_concat:
  "hard_block_loop act bs be ms
     = concat (map (\<lambda>(s, e). act s e) (hard_block_loop (\<lambda>s e. [(s, e)]) bs be ms))"
  by (induction act bs be ms rule: hard_block_loop.induct) auto

text \<open>
  Claim C10: on every day list (in particular on one sorted by start minutes) the spans
  the hard Max Continuous check examines, which are what its loop reaches by comparing
  each meeting's end with the next meeting's start, are exactly the blocks the soft Min
  Continuous check collects by comparing each meeting's start with the running block end.
  The first conjunct says that the hard check is its block check applied to these spans.
\<close>

theorem continuous_blocks_agree:
  "hard_block_scan act day_meetings = concat (map (\<lambda>(s, e). act s e) (hard_blocks day_meetings))
   \<and> hard_blocks day_meetings = soft_blocks day_meetings"
proof (cases day_meetings)
  case Nil
  then show ?thesis by (simp add: hard_blocks_def hard_block_scan_def soft_blocks_def)
next
  case (Cons m rest)
  have "hard_blocks day_meetings = soft_blocks day_meetings"
    using Cons hard_loop_is_soft_loop [of "start_minutes m" m rest]
    by (simp add: hard_blocks_def hard_block_scan_def soft_blocks_def)
  moreover have "hard_block_scan act day_meetings
                   = concat (map (\<lambda>(s, e). act s e) (hard_blocks day_meetings))"
    using Cons hard_block_loop_concat [of act "start_minutes m" "end_minutes m" day_meetings]
    by (simp add: hard_blocks_def hard_block_scan_def)
  ultimately show ?thesis by simp
qed

section \<open>The gap loop\<close>

lemma example_faculty_name: "faculty_name_of example_reference 1 = ''Cruz''"
  by (simp add: faculty_name_of_def example_reference_def empty_reference_def
        example_faculty_rows_def faculty_dict_def)

lemma gap_loop_adjacent:
  "gap_loop et name d mg ms =
     map (\<lambda>(cur, nxt). \<lparr>vtype = ''Min Gap Violation'', entity_type = capitalize et,
                         entity_name = name, vday = Some d,
                         magnitude = mg - (start_minutes nxt - end_minutes cur)\<rparr>)
         (filter (\<lambda>(cur, nxt). 0 < start_minutes nxt - end_minutes cur
                               \<and> start_minutes nxt - end_minutes cur < mg)
                 (zip ms (tl ms)))"
  by (induction et name d mg ms rule: gap_loop.induct) (auto simp: Let_def)


section \<open>Section building\<close>

lemma grouped_dd_append:
  "(\<Union>g \<in> set (dd_append k v acc). set (snd g)) = insert v (\<Union>g \<in> set acc. set (snd g))"
proof (induction acc)
  case Nil
  then show ?case by simp
next
  case (Cons a acc)
  show ?case
  proof (cases "fst a = k")
    case True
    then show ?thesis by (cases a) auto
  next
    case False
    then show ?thesis using Cons by (cases a) auto
  qed
qed

lemma grouped_meeting_groups_loop:
  "(\<Union>g \<in> set (meeting_groups_loop rows acc). set (snd g))
     = (\<Union>g \<in> set acc. set (snd g)) \<union> {m \<in> set rows. classifiable m}"
proof (induction rows arbitrary: acc)
  case Nil
  then show ?case by simp
next
  case (Cons m rows)
  show ?case
  proof (cases "classifiable m")
    case True
    then obtain sid where sid: "subject_id m = Some sid" by (auto simp: classifiable_def)
    from True sid have "meeting_groups_loop (m # rows) acc
        = meeting_groups_loop rows (dd_append (sid, faculty_id m, set (meeting_batch_ids m)) m acc)"
      by (auto simp: classifiable_def Let_def)
    then show ?thesis using True by (auto simp: Cons.IH grouped_dd_append)
  next
    case False
    then have "meeting_groups_loop (m # rows) acc = meeting_groups_loop rows acc"
      by (auto simp: classifiable_def Let_def split: option.splits)
    then show ?thesis using False by (auto simp: Cons.IH)
  qed
qed

lemma meetings_sections_loop:
  "map meetings (sections_loop ref groups next_index) = map snd groups"
  by (induction groups arbitrary: next_index) (auto simp: make_section_def Let_def)

lemma meetings_of_sections:
  "(\<Union>s \<in> set (build_sections rows ref). set (meetings s)) = {m \<in> set rows. classifiable m}"
proof -
  have "(\<Union>s \<in> set (build_sections rows ref). set (meetings s))
          = (\<Union>ms \<in> set (map meetings (build_sections rows ref)). set ms)"
    by simp
  also have "\<dots> = (\<Union>g \<in> set (meeting_groups_loop rows []). set (snd g))"
    unfolding build_sections_def meetings_sections_loop by simp
  also have "\<dots> = {m \<in> set rows. classifiable m}"
    by (simp add: grouped_meeting_groups_loop)
  finally show ?thesis .
qed

lemma meeting_batch_ids_empty:
  "meeting_batch_ids m = [] \<longleftrightarrow> ((all_batch_ids m = None \<or> all_batch_ids m = Some []) \<and> batch_id m = None)"
  by (auto simp: meeting_batch_ids_def Let_def split: option.splits)

text \<open>
  Claim C8: a meeting belongs to some section exactly when it is a schedule row with a
  non-null subject id and at least one of a faculty id and a batch (the single batch id
  or a non-empty batch id list). A meeting whose subject id is null is in no section,
  whatever faculty and batches it has.
\<close>

theorem sections_exclude_unmapped:
  "(\<exists>s \<in> set (build_sections schedule_rows ref). m \<in> set (meetings s))
     \<longleftrightarrow> (m \<in> set schedule_rows \<and> subject_id m \<noteq> None
          \<and> (faculty_id m \<noteq> None \<or> batch_id m \<noteq> None
               \<or> (all_batch_ids m \<noteq> None \<and> all_batch_ids m \<noteq> Some [])))"
proof -
  have "(\<exists>s \<in> set (build_sections schedule_rows ref). m \<in> set (meetings s))
          \<longleftrightarrow> m \<in> (\<Union>s \<in> set (build_sections schedule_rows ref). set (meetings s))"
    by simp
  also have "\<dots> \<longleftrightarrow> m \<in> set schedule_rows \<and> classifiable m"
    unfolding meetings_of_sections by simp
  finally show ?thesis
    using meeting_batch_ids_empty [of m] by (auto simp: classifiable_def)
qed

lemma section_example_groups:
  "meeting_groups_loop section_example_rows []
     = [((9, Some 1, {1}), take 2 section_example_rows)]"
  by (simp add: section_example_rows_def map_row_def meeting_batch_ids_def)

theorem sections_exclude_unmapped_witness:
  "\<not> (\<exists>s \<in> set (build_sections section_example_rows example_reference).
         section_example_rows ! 2 \<in> set (meetings s))
   \<and> subject_id (section_example_rows ! 2) = None
   \<and> faculty_id (section_example_rows ! 2) = Some 1
   \<and> batch_id (section_example_rows ! 2) = Some 1
   \<and> (\<exists>s \<in> set (build_sections section_example_rows example_reference).
         section_example_rows ! 0 \<in> set (meetings s))"
  using sections_exclude_unmapped [of section_example_rows example_reference "section_example_rows ! 2"]
        sections_exclude_unmapped [of section_example_rows example_reference "section_example_rows ! 0"]
  by (simp add: section_example_rows_def map_row_def)

section \<open>Non-preferred subjects\<close>

lemma example_faculty_by_id:
  "faculty_by_id example_reference = [(1, faculty_dict (hd example_faculty_rows))]"
  by (simp add: example_reference_def empty_reference_def example_faculty_rows_def)

text \<open>
  Claim C3 does not hold of the code. Faculty 1 prefers subject 7 only and teaches one
  section of subject 9 that meets twice (Monday and Wednesday, same faculty, same batch):
  \<open>build_sections\<close> makes a single section of the two meetings, and the Non-Preferred
  Subject check reports magnitude 2, the number of meeting rows of the pair, where the
  claim (and the docstring of the check) count sections and give 1.
\<close>

theorem non_preferred_counts_meetings:
  "map (\<lambda>s. (section_subject_id s, section_faculty_id s, batch_ids s, length (meetings s)))
       (build_sections section_example_rows example_reference) = [(9, Some 1, {1}, 2)]
   \<and> check_non_preferred_subject section_example_rows example_reference default_config
       = [\<lparr>vtype = ''Non-Preferred Subject'', entity_type = ''Faculty'',
           entity_name = ''Cruz'', vday = None, magnitude = 2\<rparr>]"
proof -
  have "non_preferred_loop example_reference section_example_rows []
          = [((1, 9), take 2 section_example_rows)]"
    by (simp add: section_example_rows_def map_row_def preferred_subjects_of_def
          example_faculty_by_id example_faculty_rows_def faculty_dict_def)
  then have "check_non_preferred_subject section_example_rows example_reference default_config
       = [\<lparr>vtype = ''Non-Preferred Subject'', entity_type = ''Faculty'',
           entity_name = ''Cruz'', vday = None, magnitude = 2\<rparr>]"
    by (simp add: check_non_preferred_subject_def example_faculty_name section_example_rows_def)
  moreover have "map (\<lambda>s. (section_subject_id s, section_faculty_id s, batch_ids s, length (meetings s)))
       (build_sections section_example_rows example_reference) = [(9, Some 1, {1}, 2)]"
    unfolding build_sections_def section_example_groups
    by (simp add: make_section_def Let_def section_example_rows_def)
  ultimately show ?thesis by simp
qed

section \<open>Faculty load\<close>




text \<open>
  Claim C2 does not hold of the code. The faculty table gives faculty 1 a maximum and a
  minimum load of 1 unit (180 minutes); the dictionary the loader stores has no key
  \<^verbatim>\<open>max_hours_per_week\<close> or \<^verbatim>\<open>min_hours_per_week\<close>, so both limits read as 0
  and no violation is produced: not for 480 scheduled minutes (overload), not for 140
  scheduled minutes (underfill), and not for none.
\<close>

theorem faculty_load_checks_silent:
  "check_faculty_overload overload_example_rows example_reference default_config = Inr []
   \<and> faculty_minutes_loop overload_example_rows [] = [(1, 480)]
   \<and> fd_max_load (faculty_dict (hd example_faculty_rows)) = Some 1
   \<and> check_faculty_underfill [] example_reference default_config = Inr []
   \<and> fd_min_load (faculty_dict (hd example_faculty_rows)) = Some 1
   \<and> check_faculty_underfill friday_example_rows example_reference default_config = Inr []
   \<and> faculty_minutes_loop friday_example_rows [] = [(1, 140)]"
  by (simp add: check_faculty_overload_def check_faculty_underfill_def overload_example_rows_def
        friday_example_rows_def map_row_def example_faculty_by_id example_faculty_rows_def
        faculty_dict_def max_minutes_of_def min_minutes_of_def)

section \<open>Merged meetings in the soft checker\<close>

text \<open>
  Claim C1 does not hold of the code. A merged meeting of faculties 1 and 2 (canonical
  faculty 1) at 08:00-09:00 and a meeting of faculty 2 at 11:40-12:40 on the same day:
  the hard checker puts the merged meeting into the groups of both faculties and sees the
  gap of 160 minutes for faculty 2; the soft checker groups by the canonical id only, so
  Excess Gap (threshold 30) reports nothing for faculty 2 and Min Continuous (minimum 90)
  reports only one of the two short blocks of faculty 2.
\<close>

theorem soft_grouping_ignores_merged_ids:
  "by_entity_loop (hard_keys Faculty) merged_example_rows []
     = [(1, [merged_meeting]), (2, [merged_meeting, later_meeting])]
   \<and> by_entity_loop (soft_keys Faculty) merged_example_rows []
     = [(1, [merged_meeting]), (2, [later_meeting])]
   \<and> check_gap_for_entity_type merged_example_rows empty_reference Faculty 200
     = [\<lparr>vtype = ''Min Gap Violation'', entity_type = ''Faculty'', entity_name = ''2'',
         vday = Some ''MONDAY'', magnitude = 40\<rparr>]
   \<and> check_excess_gap_for_entity merged_example_rows empty_reference Faculty 30 = []
   \<and> map (\<lambda>v. (entity_name v, magnitude v))
         (check_min_continuous_for_entity merged_example_rows empty_reference Faculty 90)
     = [(''1'', 30), (''2'', 30)]"
proof -
  have h: "by_entity_loop (hard_keys Faculty) merged_example_rows []
     = [(1, [merged_meeting]), (2, [merged_meeting, later_meeting])]"
    by (simp add: merged_example_rows_def hard_keys_def faculty_keys_def merged_keys_def
          merged_meeting_def later_meeting_def map_row_def)
  have s: "by_entity_loop (soft_keys Faculty) merged_example_rows []
     = [(1, [merged_meeting]), (2, [later_meeting])]"
    by (simp add: merged_example_rows_def soft_keys_def single_key_def
          merged_meeting_def later_meeting_def map_row_def)
  have n: "entity_name_of Faculty empty_reference 1 = ''1''"
          "entity_name_of Faculty empty_reference 2 = ''2''"
    by (simp_all add: entity_name_of_def faculty_name_of_def empty_reference_def str_int_def
          str_nat.simps [of "Suc 0"] str_nat.simps [of 2])
  have d: "group_by_day [merged_meeting] = [(''MONDAY'', [merged_meeting])]"
          "group_by_day [later_meeting] = [(''MONDAY'', [later_meeting])]"
          "group_by_day [merged_meeting, later_meeting]
             = [(''MONDAY'', [merged_meeting, later_meeting])]"
    by (simp_all add: group_by_day_def merged_meeting_def later_meeting_def map_row_def)
  have t: "start_minutes merged_meeting = 480" "end_minutes merged_meeting = 540"
          "start_minutes later_meeting = 700" "end_minutes later_meeting = 760"
    by (simp_all add: merged_meeting_def later_meeting_def map_row_def)
  have g: "check_gap_for_entity_type merged_example_rows empty_reference Faculty 200
     = [\<lparr>vtype = ''Min Gap Violation'', entity_type = ''Faculty'', entity_name = ''2'',
         vday = Some ''MONDAY'', magnitude = 40\<rparr>]"
    by (simp add: check_gap_for_entity_type_def h n d t capitalize_def)
  have e: "check_excess_gap_for_entity merged_example_rows empty_reference Faculty 30 = []"
    by (simp add: check_excess_gap_for_entity_def s n d t)
  have c: "map (\<lambda>v. (entity_name v, magnitude v))
         (check_min_continuous_for_entity merged_example_rows empty_reference Faculty 90)
     = [(''1'', 30), (''2'', 30)]"
    by (simp add: check_min_continuous_for_entity_def s n d t soft_blocks_def
          min_continuous_check_def)
  from h s g e c show ?thesis by simp
qed

section \<open>Magnitudes of the violations\<close>





































section \<open>The evaluation result\<close>



















section \<open>The Min Gap check\<close>

lemma keys_append_all:
  "map fst (append_all ks row acc)
     = fold (\<lambda>x seen. if x \<in> set seen then seen else seen @ [x]) ks (map fst acc)"
  by (induction ks arbitrary: acc) (simp_all add: keys_dd_append)

lemma keys_by_entity_loop:
  "map fst (by_entity_loop keys rows acc)
     = fold (\<lambda>x seen. if x \<in> set seen then seen else seen @ [x])
            (concat (map keys rows)) (map fst acc)"
  by (induction rows arbitrary: acc) (simp_all add: keys_append_all)

lemma keys_group_loop:
  "map fst (group_loop key xs acc)
     = fold (\<lambda>x seen. if x \<in> set seen then seen else seen @ [x]) (map key xs) (map fst acc)"
  by (induction xs arbitrary: acc) (simp_all add: keys_dd_append)

lemma assoc_list_by_keys:
  "\<forall>g \<in> set al. snd g = f (fst g) \<Longrightarrow> al = map (\<lambda>k. (k, f k)) (map fst al)"
  by (induction al) (auto simp: prod_eq_iff)

lemma by_entity_loop_eq:
  "by_entity_loop keys rows []
     = map (\<lambda>e. (e, concat (map (\<lambda>row. replicate (count_list (keys row) e) row) rows)))
           (first_seen (concat (map keys rows)))"
proof -
  have "\<forall>g \<in> set (by_entity_loop keys rows []).
          snd g = concat (map (\<lambda>row. replicate (count_list (keys row) (fst g)) row) rows)"
    using by_entity_group [of _ _ keys rows] by auto
  from assoc_list_by_keys [OF this] show ?thesis
    by (simp add: keys_by_entity_loop first_seen_def)
qed

lemma group_by_day_eq:
  "group_by_day ms = map (\<lambda>d. (d, filter (\<lambda>m. day m = d) ms)) (first_seen (map day ms))"
proof -
  have "\<forall>g \<in> set (group_by_day ms). snd g = filter (\<lambda>m. day m = fst g) ms"
    using by_day_group [of _ _ ms] by auto
  from assoc_list_by_keys [OF this] show ?thesis
    by (simp add: keys_group_loop first_seen_def group_by_day_def)
qed

lemma hard_keys_entity_ids: "hard_keys et row = entity_ids et row"
  by (cases et)
     (auto simp: hard_keys_def entity_ids_def faculty_keys_def batch_keys_def merged_keys_def
           split: option.splits list.splits)

lemma gap_loop_short_gaps:
  "gap_loop et name d mg ms
     = map (\<lambda>shortfall. \<lparr>vtype = ''Min Gap Violation'', entity_type = capitalize et,
                          entity_name = name, vday = Some d, magnitude = shortfall\<rparr>)
           (short_gaps mg ms)"
  by (simp add: gap_loop_adjacent short_gaps_def case_prod_unfold comp_def)

lemma check_gap_for_entity_type_expected:
  "check_gap_for_entity_type rows ref et mg = min_gap_expected et rows ref mg"
proof -
  have k: "hard_keys et = entity_ids et"
    by (rule ext) (rule hard_keys_entity_ids)
  show ?thesis
    unfolding check_gap_for_entity_type_def min_gap_expected_def k by_entity_loop_eq
      entity_meetings_def [symmetric] gap_loop_short_gaps
    by (simp add: group_by_day_eq comp_def)
qed

text \<open>
  Claim C6: \<open>check_min_gap\<close>, with the configured minimum gap, returns for the
  faculties and then for the batches exactly the violations the specification describes:
  for each entity (a row counts for every id of its merged id list, else for its single
  id) and each day, every pair of consecutive meetings, sorted by start minutes, whose gap
  is strictly positive and strictly below the minimum gives exactly one violation, of
  magnitude minimum minus gap; a pair whose gap is zero or negative gives none.
\<close>

theorem check_min_gap_exact:
  "check_min_gap schedule_rows ref cfg
     = min_gap_expected Faculty schedule_rows ref (MIN_GAP_MINUTES cfg)
       @ min_gap_expected Batch schedule_rows ref (MIN_GAP_MINUTES cfg)"
  by (simp add: check_min_gap_def check_gap_for_entity_type_expected Let_def)

lemma example_names:
  "entity_name_of Faculty example_reference 1 = ''Cruz''"
  "entity_name_of Faculty example_reference 2 = ''2''"
  "entity_name_of Batch example_reference 1 = ''1''"
  "entity_name_of Batch example_reference 2 = ''2''"
proof -
  have b: "batches_by_id example_reference = []"
    by (simp add: example_reference_def empty_reference_def)
  show "entity_name_of Faculty example_reference 1 = ''Cruz''"
    by (simp add: entity_name_of_def example_faculty_name)
  show "entity_name_of Faculty example_reference 2 = ''2''"
    by (simp add: entity_name_of_def faculty_name_of_def example_faculty_by_id str_int_def
          str_nat.simps [of 2])
  show "entity_name_of Batch example_reference 1 = ''1''"
    by (simp add: entity_name_of_def batch_name_of_def b str_int_def str_nat.simps [of "Suc 0"])
  show "entity_name_of Batch example_reference 2 = ''2''"
    by (simp add: entity_name_of_def batch_name_of_def b str_int_def str_nat.simps [of 2])
qed

text \<open>
  With a minimum of 30 minutes, a gap of 20 minutes gives magnitude 10: for a faculty, and
  for a batch that shares its first meeting with another batch.
\<close>

theorem check_min_gap_exact_witness:
  "check_min_gap gap_example_rows example_reference default_config
     = [\<lparr>vtype = ''Min Gap Violation'', entity_type = ''Faculty'', entity_name = ''Cruz'',
          vday = Some ''MONDAY'', magnitude = 10\<rparr>]
   \<and> check_min_gap batch_gap_example_rows example_reference default_config
     = [\<lparr>vtype = ''Min Gap Violation'', entity_type = ''Batch'', entity_name = ''2'',
          vday = Some ''MONDAY'', magnitude = 10\<rparr>]"
proof -
  have m: "MIN_GAP_MINUTES default_config = 30"
    by (simp add: default_config_def)
  have a: "min_gap_expected Faculty gap_example_rows example_reference 30
     = [\<lparr>vtype = ''Min Gap Violation'', entity_type = ''Faculty'', entity_name = ''Cruz'',
          vday = Some ''MONDAY'', magnitude = 10\<rparr>]"
    by (simp add: min_gap_expected_def first_seen_def entity_meetings_def entity_ids_def
          short_gaps_def gap_example_rows_def map_row_def capitalize_def example_names)
  have b: "min_gap_expected Batch gap_example_rows example_reference 30 = []"
    by (simp add: min_gap_expected_def first_seen_def entity_meetings_def entity_ids_def
          short_gaps_def gap_example_rows_def map_row_def)
  have c: "min_gap_expected Faculty batch_gap_example_rows example_reference 30 = []"
    by (simp add: min_gap_expected_def first_seen_def entity_meetings_def entity_ids_def
          short_gaps_def batch_gap_example_rows_def map_row_def)
  have d: "min_gap_expected Batch batch_gap_example_rows example_reference 30
     = [\<lparr>vtype = ''Min Gap Violation'', entity_type = ''Batch'', entity_name = ''2'',
          vday = Some ''MONDAY'', magnitude = 10\<rparr>]"
    by (simp add: min_gap_expected_def first_seen_def entity_meetings_def entity_ids_def
          short_gaps_def batch_gap_example_rows_def map_row_def capitalize_def example_names)
  show ?thesis
    unfolding check_min_gap_exact m a b c d by simp
qed






section \<open>Lecture-lab separation\<close>

lemma set_fold_first_seen:
  "set (fold (\<lambda>x seen. if x \<in> set seen then seen else seen @ [x]) xs acc) = set acc \<union> set xs"
  by (induction xs arbitrary: acc) auto

lemma distinct_fold_first_seen:
  "distinct acc \<Longrightarrow> distinct (fold (\<lambda>x seen. if x \<in> set seen then seen else seen @ [x]) xs acc)"
  by (induction xs arbitrary: acc) auto

lemma set_first_seen: "set (first_seen xs) = set xs"
  by (simp add: first_seen_def set_fold_first_seen)

lemma distinct_first_seen: "distinct (first_seen xs)"
  by (simp add: first_seen_def distinct_fold_first_seen)

lemma dd_get_group_by_day: "dd_get (group_by_day ms) d = filter (\<lambda>m. day m = d) ms"
  by (simp add: group_by_day_def dd_get_group_loop dd_get_Nil)

lemma keys_group_by_day: "map fst (group_by_day ms) = first_seen (map day ms)"
  by (simp add: group_by_day_eq comp_def)

lemma lecture_lab_meeting_check_eq:
  "lecture_lab_meeting_check pair d lec_m lab_m
     = (if separation_violated lec_m lab_m then [separation_violation pair d] else [])"
  by (auto simp: lecture_lab_meeting_check_def separation_violated_def back_to_back_def
        identical_room_def separation_violation_def Let_def split: option.splits)

lemma lecture_lab_pair_check_expected:
  "lecture_lab_pair_check pair = separation_expected pair"
  unfolding lecture_lab_pair_check_def separation_expected_def Let_def
    dd_get_group_by_day keys_group_by_day lecture_lab_meeting_check_eq
  by (simp add: set_first_seen)

lemma inner_count:
  "length (concat (map (\<lambda>b. if Q b then [c] else []) bs)) = length (filter Q bs)"
  by (induction bs) auto

lemma pair_count:
  "length (concat (map (\<lambda>l. concat (map (\<lambda>b. if Q l b then [c] else []) bs)) ls))
     = length (filter (\<lambda>(l, b). Q l b) (List.product ls bs))"
  by (induction ls) (simp_all add: inner_count filter_map comp_def)

lemma product_filter:
  "filter (\<lambda>(l, b). Q l b) (List.product (filter P1 ls) (filter P2 bs))
     = filter (\<lambda>(l, b). P1 l \<and> P2 b \<and> Q l b) (List.product ls bs)"
proof (induction ls)
  case Nil
  then show ?case by simp
next
  case (Cons l ls)
  have "filter (\<lambda>(l, b). Q l b) (map (Pair l) (filter P2 bs))
          = filter (\<lambda>(l', b). P2 b \<and> Q l' b) (map (Pair l) bs)"
    by (induction bs) auto
  then show ?case using Cons by (auto simp: filter_map comp_def)
qed

lemma filter_day_concat:
  assumes "distinct ds" and "\<And>d v. v \<in> set (f d) \<Longrightarrow> vday v = Some d"
  shows "filter (\<lambda>v. vday v = Some d') (concat (map f ds)) = (if d' \<in> set ds then f d' else [])"
  using assms(1)
proof (induction ds)
  case Nil
  then show ?case by simp
next
  case (Cons d ds)
  then have IH: "filter (\<lambda>v. vday v = Some d') (concat (map f ds))
                   = (if d' \<in> set ds then f d' else [])"
    and nd: "d \<notin> set ds"
    by simp_all
  show ?case
  proof (cases "d' = d")
    case True
    have "filter (\<lambda>v. vday v = Some d) (f d) = f d"
      using assms(2) by (simp add: filter_id_conv)
    with True nd IH show ?thesis by simp
  next
    case False
    have "filter (\<lambda>v. vday v = Some d') (f d) = []"
      using assms(2) [of _ d] False by (auto simp: filter_empty_conv)
    with False IH show ?thesis by simp
  qed
qed

lemma separation_day_count:
  "length (filter (\<lambda>v. vday v = Some d) (separation_expected pair))
     = length (filter (\<lambda>(l, b). day l = d \<and> day b = d \<and> separation_violated l b)
                 (List.product (meetings (lecture_section pair)) (meetings (lab_section pair))))"
proof -
  let ?lecs = "meetings (lecture_section pair)" and ?labs = "meetings (lab_section pair)"
  let ?block = "\<lambda>d. concat (map (\<lambda>lec_m.
         concat (map (\<lambda>lab_m. if separation_violated lec_m lab_m
                               then [separation_violation pair d] else [])
                     (filter (\<lambda>m. day m = d) ?labs)))
         (filter (\<lambda>m. day m = d) ?lecs))"
  let ?days = "filter (\<lambda>d. d \<in> day ` set ?labs) (first_seen (map day ?lecs))"
  have key: "vday v = Some d" if "v \<in> set (?block d)" for d v
    using that by (auto simp: separation_violation_def split: if_splits)
  have d: "distinct ?days"
    by (simp add: distinct_first_seen)
  have count: "length (?block d)
      = length (filter (\<lambda>(l, b). day l = d \<and> day b = d \<and> separation_violated l b)
                 (List.product ?lecs ?labs))"
    by (simp add: pair_count product_filter)
  have "filter (\<lambda>v. vday v = Some d) (separation_expected pair)
          = (if d \<in> set ?days then ?block d else [])"
    unfolding separation_expected_def
    by (rule filter_day_concat [OF d]) (rule key)
  moreover have "filter (\<lambda>(l, b). day l = d \<and> day b = d \<and> separation_violated l b)
                 (List.product ?lecs ?labs) = []" if "d \<notin> set ?days"
    using that by (fastforce simp: filter_empty_conv set_first_seen image_iff)
  ultimately show ?thesis using count by auto
qed

text \<open>
  Claim C4: the check returns, for each valid pair, exactly the violations the
  specification describes. For each pair and each day, the number of violations of that
  day is the number of pairs of a lecture meeting and a lab meeting of that day that are in
  violation, so each such pair yields exactly one and every other pair none; every
  violation has magnitude 1. A pair of meetings is in violation if it is not back-to-back
  (lecture end = lab start or lab end = lecture start), also if it is back-to-back with
  two different rooms, and not if it is back-to-back with the same room assigned to both.
  (A back-to-back pair in which a room is missing counts as in violation.)
\<close>

theorem lecture_lab_separation_exact:
  "check_lecture_lab_separation valid_pairs ref = concat (map separation_expected valid_pairs)
   \<and> length (filter (\<lambda>v. vday v = Some d) (check_lecture_lab_separation [pair] ref))
       = length (filter (\<lambda>(l, b). day l = d \<and> day b = d \<and> separation_violated l b)
                   (List.product (meetings (lecture_section pair)) (meetings (lab_section pair))))
   \<and> (\<forall>v \<in> set (check_lecture_lab_separation valid_pairs ref).
         magnitude v = 1 \<and> vtype v = ''Lecture-Lab Separation'')
   \<and> (back_to_back lec_m lab_m \<longleftrightarrow>
         end_minutes lec_m = start_minutes lab_m \<or> end_minutes lab_m = start_minutes lec_m)
   \<and> (\<not> back_to_back lec_m lab_m \<longrightarrow> separation_violated lec_m lab_m)
   \<and> (back_to_back lec_m lab_m \<and> room_id lec_m = Some r1 \<and> room_id lab_m = Some r2 \<and> r1 \<noteq> r2
        \<longrightarrow> separation_violated lec_m lab_m)
   \<and> (back_to_back lec_m lab_m \<and> room_id lec_m = Some r1 \<and> room_id lab_m = Some r1
        \<longrightarrow> \<not> separation_violated lec_m lab_m)
   \<and> (back_to_back lec_m lab_m \<and> (room_id lec_m = None \<or> room_id lab_m = None)
        \<longrightarrow> separation_violated lec_m lab_m)"
proof -
  have "lecture_lab_pair_check = separation_expected"
    by (rule ext) (rule lecture_lab_pair_check_expected)
  then have a: "check_lecture_lab_separation ps ref = concat (map separation_expected ps)" for ps
    by (simp add: check_lecture_lab_separation_def)
  have b: "length (filter (\<lambda>v. vday v = Some d) (check_lecture_lab_separation [pair] ref))
       = length (filter (\<lambda>(l, b). day l = d \<and> day b = d \<and> separation_violated l b)
                   (List.product (meetings (lecture_section pair)) (meetings (lab_section pair))))"
    by (simp add: a separation_day_count)
  have c: "\<forall>v \<in> set (check_lecture_lab_separation valid_pairs ref).
         magnitude v = 1 \<and> vtype v = ''Lecture-Lab Separation''"
    by (auto simp: a separation_expected_def separation_violation_def split: if_splits)
  have d: "(\<not> back_to_back lec_m lab_m \<longrightarrow> separation_violated lec_m lab_m)
   \<and> (back_to_back lec_m lab_m \<and> room_id lec_m = Some r1 \<and> room_id lab_m = Some r2 \<and> r1 \<noteq> r2
        \<longrightarrow> separation_violated lec_m lab_m)
   \<and> (back_to_back lec_m lab_m \<and> room_id lec_m = Some r1 \<and> room_id lab_m = Some r1
        \<longrightarrow> \<not> separation_violated lec_m lab_m)
   \<and> (back_to_back lec_m lab_m \<and> (room_id lec_m = None \<or> room_id lab_m = None)
        \<longrightarrow> separation_violated lec_m lab_m)"
    by (auto simp: separation_violated_def identical_room_def split: option.splits)
  from a b c d show ?thesis
    by (simp only: back_to_back_def simp_thms)
qed

lemma ll_pair_meetings:
  "meetings (lecture_section (ll_pair lab_m)) = [lec_meeting]"
  "meetings (lab_section (ll_pair lab_m)) = [lab_m]"
  by (simp_all add: ll_pair_def make_section_def Let_def)

lemma ll_sections:
  "build_sections [lec_meeting, lab_other_room] ll_reference
     = [make_section ll_reference 9 (Some 1) {1} [lec_meeting] 0,
        make_section ll_reference 10 (Some 1) {1} [lab_other_room] 0]"
proof -
  have "meeting_groups_loop [lec_meeting, lab_other_room] []
          = [((9, Some 1, {1}), [lec_meeting]), ((10, Some 1, {1}), [lab_other_room])]"
    by (simp add: lec_meeting_def lab_other_room_def map_row_def meeting_batch_ids_def)
  then show ?thesis by (simp add: build_sections_def)
qed

lemma ll_pairs_found:
  "find_lecture_lab_pairs (build_sections [lec_meeting, lab_other_room] ll_reference) ll_reference
     = ([ll_pair lab_other_room], [])"
proof -
  have l: "lab_to_lecture ll_reference = [(10, 9)]"
    by (simp add: lab_to_lecture_def ll_reference_def)
  have f: "section_subject_id (make_section r sid fid bs ms i) = sid"
          "section_faculty_id (make_section r sid fid bs ms i) = fid"
          "batch_ids (make_section r sid fid bs ms i) = bs" for r sid fid bs ms i
    by (simp_all add: make_section_def Let_def)
  show ?thesis
    unfolding ll_sections
    by (simp add: find_lecture_lab_pairs_def candidate_pairs_def Let_def l f dd_get_def ll_pair_def)
qed

lemma ll_example_facts:
  "back_to_back lec_meeting lab_other_room" "separation_violated lec_meeting lab_other_room"
  "back_to_back lec_meeting lab_same_room" "\<not> separation_violated lec_meeting lab_same_room"
  "\<not> back_to_back lec_meeting lab_apart" "separation_violated lec_meeting lab_apart"
  "day lec_meeting = ''MONDAY''" "day lab_other_room = ''MONDAY''"
  "day lab_same_room = ''MONDAY''" "day lab_apart = ''MONDAY''"
  by (simp_all add: back_to_back_def separation_violated_def identical_room_def lec_meeting_def
        lab_other_room_def lab_same_room_def lab_apart_def map_row_def)

text \<open>
  The example of the specification: back-to-back in different rooms gives exactly one
  violation, in the same room none; an hour apart gives one.
\<close>

theorem lecture_lab_separation_exact_witness:
  "length (filter (\<lambda>v. vday v = Some ''MONDAY'')
             (check_lecture_lab_separation [ll_pair lab_other_room] ll_reference)) = 1
   \<and> back_to_back lec_meeting lab_other_room
   \<and> room_id lec_meeting = Some 3 \<and> room_id lab_other_room = Some 4
   \<and> separation_violated lec_meeting lab_other_room
   \<and> length (filter (\<lambda>v. vday v = Some ''MONDAY'')
             (check_lecture_lab_separation [ll_pair lab_same_room] ll_reference)) = 0
   \<and> back_to_back lec_meeting lab_same_room
   \<and> room_id lab_same_room = Some 3
   \<and> \<not> separation_violated lec_meeting lab_same_room
   \<and> length (filter (\<lambda>v. vday v = Some ''MONDAY'')
             (check_lecture_lab_separation [ll_pair lab_apart] ll_reference)) = 1
   \<and> \<not> back_to_back lec_meeting lab_apart
   \<and> separation_violated lec_meeting lab_apart"
proof -
  have r: "room_id lec_meeting = Some 3" "room_id lab_other_room = Some 4"
          "room_id lab_same_room = Some 3"
    by (simp_all add: lec_meeting_def lab_other_room_def lab_same_room_def map_row_def)
  note t1 = lecture_lab_separation_exact
              [of "[]" ll_reference "''MONDAY''" "ll_pair lab_other_room"
                  lec_meeting lab_other_room 3 4]
  note t2 = lecture_lab_separation_exact
              [of "[]" ll_reference "''MONDAY''" "ll_pair lab_same_room"
                  lec_meeting lab_same_room 3 4]
  note t3 = lecture_lab_separation_exact
              [of "[]" ll_reference "''MONDAY''" "ll_pair lab_apart"
                  lec_meeting lab_apart 3 4]
  have a: "length (filter (\<lambda>v. vday v = Some ''MONDAY'')
             (check_lecture_lab_separation [ll_pair lab_other_room] ll_reference)) = 1"
    unfolding conjunct1 [OF conjunct2 [OF t1]]
    by (simp add: ll_pair_meetings ll_example_facts)
  have b: "length (filter (\<lambda>v. vday v = Some ''MONDAY'')
             (check_lecture_lab_separation [ll_pair lab_same_room] ll_reference)) = 0"
    unfolding conjunct1 [OF conjunct2 [OF t2]]
    by (simp add: ll_pair_meetings ll_example_facts)
  have c: "length (filter (\<lambda>v. vday v = Some ''MONDAY'')
             (check_lecture_lab_separation [ll_pair lab_apart] ll_reference)) = 1"
    unfolding conjunct1 [OF conjunct2 [OF t3]]
    by (simp add: ll_pair_meetings ll_example_facts)
  from a b c r ll_example_facts(1-6) show ?thesis by (intro conjI)
qed

end
